theory Spec2Isabelle
  imports Complex_Main "HOL-Library.Sublist"
begin

section \<open>The retrieval-augmented chatbot of \<^verbatim>\<open>rag_chatbot.py\<close>\<close>

text \<open>
  The class \<^verbatim>\<open>Chatbot\<close> builds a knowledge base once, in its constructor, and answers
  with the help of the problems retrieved from it. Its collaborators (the loader of a
  problem, the BERT embedder, the generative model, the base class \<^verbatim>\<open>ProblemChatbot\<close>)
  are parameters of the model; the calls made to them and the lines printed are kept in
  a trace, which is part of the state.
\<close>

subsection \<open>Python values and exceptions\<close>

text \<open>
  An exception is a value. \<open>error_str\<close> is Python's \<^verbatim>\<open>str(e)\<close>: an \<^verbatim>\<open>IndexError\<close> of a
  list carries the text "list index out of range", a \<^verbatim>\<open>KeyError\<close> the \<^verbatim>\<open>repr\<close> of its
  key (written here for keys that need no escaping), a bare \<^verbatim>\<open>assert\<close> no text.
\<close>

datatype py_error =
    IndexError
  | KeyError string
  | AssertionError
  | AttributeError string
  | OtherException string

fun error_str :: "py_error \<Rightarrow> string" where
  "error_str IndexError = ''list index out of range''"
| "error_str (KeyError k) = [CHR 0x27] @ k @ [CHR 0x27]"
| "error_str AssertionError = []"
| "error_str (AttributeError m) = m"
| "error_str (OtherException m) = m"

text \<open>The value of a field of a problem: a string, or \<^verbatim>\<open>None\<close>.\<close>

datatype pyval = PyNone | PyStr string

text \<open>
  What \<^verbatim>\<open>load_problem\<close> returns: a dictionary from field names to values, or an object
  that is no dictionary (\<^verbatim>\<open>None\<close>), on which \<^verbatim>\<open>.get\<close> raises.
\<close>

datatype problem_data = PyNoneData | PyDict "string \<rightharpoonup> pyval"

text \<open>A vector is a sequence of numbers; the reals stand for the floats of the source.\<close>

type_synonym vec = "real list"

text \<open>\<^verbatim>\<open>str(n)\<close> of a natural number: its decimal digits.\<close>

fun str_nat :: "nat \<Rightarrow> string" where
  "str_nat n =
     (if n < 10 then [char_of (48 + n)]
      else str_nat (n div 10) @ [char_of (48 + n mod 10)])"

declare str_nat.simps [simp del]

text \<open>An f-string renders a string as itself and \<^verbatim>\<open>None\<close> as "None".\<close>

fun format_value :: "pyval \<Rightarrow> string" where
  "format_value PyNone = ''None''"
| "format_value (PyStr s) = s"

text \<open>\<^verbatim>\<open>d.get(key, '')\<close>\<close>

definition dict_get :: "(string \<rightharpoonup> pyval) \<Rightarrow> string \<Rightarrow> pyval" where
  "dict_get m key = (case m key of None \<Rightarrow> PyStr [] | Some v \<Rightarrow> v)"

text \<open>\<^verbatim>\<open>sep.join(xs)\<close>\<close>

fun join :: "string \<Rightarrow> string list \<Rightarrow> string" where
  "join sep [] = []"
| "join sep [x] = x"
| "join sep (x # y # ys) = x @ sep @ join sep (y # ys)"

text \<open>
  \<^verbatim>\<open>str.strip()\<close> and \<^verbatim>\<open>str.lower()\<close>, on the ASCII characters: a \<open>char\<close> is a byte, and
  the white space and the capital letters beyond ASCII are outside this model.
\<close>

definition isspace :: "char \<Rightarrow> bool" where
  "isspace ch = (of_char ch \<in> {9, 10, 11, 12, 13, 28, 29, 30, 31, 32 :: nat})"

definition strip :: "string \<Rightarrow> string" where
  "strip s = rev (dropWhile isspace (rev (dropWhile isspace s)))"

definition lower_char :: "char \<Rightarrow> char" where
  "lower_char ch =
     (if 65 \<le> (of_char ch :: nat) \<and> (of_char ch :: nat) \<le> 90
      then char_of (of_char ch + (32 :: nat)) else ch)"

definition lower :: "string \<Rightarrow> string" where
  "lower s = map lower_char s"

text \<open>
  \<^verbatim>\<open>os.path.splitext(p)[0]\<close> for a directory entry \<open>p\<close> (a name with no path separator):
  the text before the last dot, unless there is no dot or only dots stand before it, in
  which case the whole name is the root.
\<close>

definition splitext_root :: "string \<Rightarrow> string" where
  "splitext_root p =
     (let stem = rev (drop 1 (dropWhile (\<lambda>ch. ch \<noteq> CHR ''.'') (rev p)))
      in if CHR ''.'' \<in> set p \<and> list_ex (\<lambda>ch. ch \<noteq> CHR ''.'') stem then stem else p)"

subsection \<open>The vector index\<close>

text \<open>
  Modelled from the spec: the Vector Index. The source uses \<^verbatim>\<open>faiss.IndexFlatIP(768)\<close>, a
  compiled library that is no part of the repository; the model below follows section 4.3
  of the specification and the checks of the library's Python wrapper. The index holds
  its dimension and the vectors added so far, in insertion order; the position of a
  vector is its handle.
\<close>

record index_flat_ip =
  index_d :: nat
  index_xb :: "vec list"

text \<open>
  Modelled from the spec: \<^verbatim>\<open>add_all\<close> of the Vector Index, which the source calls as
  \<^verbatim>\<open>index.add(np.array(vs))\<close> (code of the library, not in the source file). It appends
  the vectors in order. A vector whose dimension is not the index's is rejected before
  anything is inserted (an \<^verbatim>\<open>AssertionError\<close> of the wrapper; rows of unequal length make
  \<^verbatim>\<open>np.array\<close> fail, which is counted here too).
\<close>

definition index_add :: "index_flat_ip \<Rightarrow> vec list \<Rightarrow> py_error + index_flat_ip" where
  "index_add idx vs =
     (if list_all (\<lambda>v. length v = index_d idx) vs
      then Inr (idx\<lparr>index_xb := index_xb idx @ vs\<rparr>)
      else Inl AssertionError)"

text \<open>
  Modelled from the spec: the inner product of section 4.3 and of the glossary, the sum
  of the products of the components, which the library computes inside its search.
\<close>

definition inner_product :: "vec \<Rightarrow> vec \<Rightarrow> real" where
  "inner_product x y = sum_list (map2 (*) x y)"

text \<open>The score of a "no more results" slot: the library writes \<open>- FLT_MAX\<close>.\<close>

definition no_result_score :: real where
  "no_result_score = - 340282346638528859811704183484516925440"

text \<open>
  Modelled from the spec: \<^verbatim>\<open>search\<close> of the Vector Index, which the source calls as
  \<^verbatim>\<open>index.search(q, k)\<close> with one query (code of the library, not in the source file).
  It returns \<open>k\<close> slots \<open>(handle, score)\<close>. The stored vectors
  are scored by inner product with the query and ranked by descending score, by a stable
  sort, so that equal scores keep insertion order; the first \<open>k\<close> are returned, and the
  slots left over carry the sentinel handle \<open>-1\<close>. A query of another dimension and a
  \<open>k\<close> that is not positive fail the wrapper's assertions.
\<close>

definition index_search :: "index_flat_ip \<Rightarrow> vec \<Rightarrow> int \<Rightarrow> py_error + (int \<times> real) list" where
  "index_search idx q k =
     (if length q \<noteq> index_d idx \<or> k \<le> 0 then Inl AssertionError
      else
        let scored = map (\<lambda>(h, v). (int h, inner_product q v)) (enumerate 0 (index_xb idx));
            ranked = sort_key (\<lambda>(h, s). - s) scored;
            top = take (nat k) ranked
        in Inr (top @ replicate (nat k - length top) (- 1, no_result_score)))"

subsection \<open>State and collaborators\<close>

text \<open>
  The events of a run: a line printed, a text handed to the embedder, a search of the
  index, a prompt handed to the generative model.
\<close>

datatype event =
    Print string
  | EmbedCall string
  | SearchCall int
  | GenerateCall string

text \<open>
  The object: the state \<open>base\<close> of the base class \<^verbatim>\<open>ProblemChatbot\<close> (current problem,
  conversation history, ...), the fields the constructor adds, and the trace.
\<close>

record 'b chatbot =
  base :: 'b
  problem_ids :: "string list"
  problem_data_map :: "string \<rightharpoonup> problem_data"
  index :: index_flat_ip
  trace :: "event list"

text \<open>
  The collaborators, which are not in the source file. The loader and the embedder are
  functions of their argument that may raise. The methods of the base class act on the
  base state only; \<open>current_problem_set\<close> and \<open>problem_data_set\<close> are the truth values
  of \<^verbatim>\<open>self.current_problem\<close> and \<^verbatim>\<open>self.problem_data\<close>. The generative model receives the
  prompt, the base state (for the conversation history, which it may change) and the
  system message. \<open>format_2f\<close> is the float format \<^verbatim>\<open>:.2f\<close>.
\<close>

record 'b collaborators =
  load_problem :: "string \<Rightarrow> py_error + problem_data"
  get_bert_embedding :: "string \<Rightarrow> py_error + vec"
  super_respond :: "'b \<Rightarrow> string \<Rightarrow> (py_error + string) \<times> 'b"
  current_problem_set :: "'b \<Rightarrow> bool"
  problem_data_set :: "'b \<Rightarrow> bool"
  super_build_context :: "'b \<Rightarrow> py_error + string"
  build_system_message :: "'b \<Rightarrow> py_error + string"
  generate_response :: "string \<Rightarrow> 'b \<Rightarrow> string \<Rightarrow> (py_error + string) \<times> 'b"
  format_2f :: "real \<Rightarrow> string"

definition emit :: "event \<Rightarrow> 'b chatbot \<Rightarrow> 'b chatbot" where
  "emit e st = st\<lparr>trace := trace st @ [e]\<rparr>"

subsection \<open>Building the knowledge base\<close>

text \<open>\<^verbatim>\<open>_create_problem_context\<close>: the five fields in a fixed order, each after its label.\<close>

fun create_problem_context :: "problem_data \<Rightarrow> py_error + string" where
  "create_problem_context PyNoneData =
     Inl (AttributeError
       ([CHR 0x27] @ ''NoneType'' @ [CHR 0x27] @ '' object has no attribute ''
         @ [CHR 0x27] @ ''get'' @ [CHR 0x27]))"
| "create_problem_context (PyDict m) =
     Inr (''Title: '' @ format_value (dict_get m ''title'') @ [CHR 0x0A]
        @ ''Statement: '' @ format_value (dict_get m ''statement'') @ [CHR 0x0A]
        @ ''Input: '' @ format_value (dict_get m ''input'') @ [CHR 0x0A]
        @ ''Output: '' @ format_value (dict_get m ''output'') @ [CHR 0x0A]
        @ ''Solution: '' @ format_value (dict_get m ''solution''))"

text \<open>
  The body of the \<^verbatim>\<open>try\<close> of the build loop, for one problem: load, render, embed, then
  the three appends. The first component of the result is the exception raised, if any;
  the appends happen only when nothing was raised before them.
\<close>

definition try_index_problem ::
  "'b collaborators \<Rightarrow> string \<Rightarrow> vec list \<times> 'b chatbot \<Rightarrow> py_error option \<times> vec list \<times> 'b chatbot" where
  "try_index_problem c problem_id acc =
     (case acc of (embeddings, st) \<Rightarrow>
        (case load_problem c problem_id of
           Inl e \<Rightarrow> (Some e, embeddings, st)
         | Inr pdata \<Rightarrow>
             (case create_problem_context pdata of
                Inl e \<Rightarrow> (Some e, embeddings, st)
              | Inr context \<Rightarrow>
                  (case get_bert_embedding c context of
                     Inl e \<Rightarrow> (Some e, embeddings, emit (EmbedCall context) st)
                   | Inr embedding \<Rightarrow>
                       (None, embeddings @ [embedding],
                        (emit (EmbedCall context) st)
                          \<lparr>problem_ids := problem_ids st @ [problem_id],
                           problem_data_map := (problem_data_map st)(problem_id \<mapsto> pdata)\<rparr>)))))"

text \<open>
  The loop over \<^verbatim>\<open>os.listdir(PROBLEM_PATH)\<close>: only the names ending in ".json" are
  problems; an exception is printed with the problem's identifier and the loop goes on.
\<close>

fun build_loop ::
  "'b collaborators \<Rightarrow> string list \<Rightarrow> vec list \<times> 'b chatbot \<Rightarrow> vec list \<times> 'b chatbot" where
  "build_loop c [] acc = acc"
| "build_loop c (p_file # rest) acc =
     (if suffix ''.json'' p_file then
        (let problem_id = splitext_root p_file in
         case try_index_problem c problem_id acc of
           (None, embeddings, st) \<Rightarrow> build_loop c rest (embeddings, st)
         | (Some e, embeddings, st) \<Rightarrow>
             build_loop c rest
               (embeddings,
                emit (Print (''Error loading problem '' @ problem_id @ '': '' @ error_str e)) st))
      else build_loop c rest acc)"

text \<open>
  \<^verbatim>\<open>_build_knowledge_base\<close>, on the listing \<open>files\<close> of the problem directory. The
  vectors are added to the index in one call, outside the \<^verbatim>\<open>try\<close>: an exception of
  that call leaves the build.
\<close>

definition build_knowledge_base ::
  "'b collaborators \<Rightarrow> string list \<Rightarrow> 'b chatbot \<Rightarrow> py_error + 'b chatbot" where
  "build_knowledge_base c files st =
     (case build_loop c files ([], emit (Print ''Building knowledge base...'') st) of
        (embeddings, st1) \<Rightarrow>
          (case (if embeddings \<noteq> [] then index_add (index st1) embeddings
                 else Inr (index st1)) of
             Inl e \<Rightarrow> Inl e
           | Inr idx \<Rightarrow>
               Inr (emit (Print (''Knowledge base built with ''
                                  @ str_nat (length (problem_ids st1)) @ '' problems''))
                      (st1\<lparr>index := idx\<rparr>))))"

text \<open>
  The constructor: the base class's state \<open>b\<close>, no identifiers, no documents, an empty
  index of dimension 768, then the build.
\<close>

definition chatbot_init :: "'b collaborators \<Rightarrow> 'b \<Rightarrow> string list \<Rightarrow> py_error + 'b chatbot" where
  "chatbot_init c b files =
     build_knowledge_base c files
       \<lparr>base = b, problem_ids = [], problem_data_map = Map.empty,
        index = \<lparr>index_d = 768, index_xb = []\<rparr>, trace = []\<rparr>"

subsection \<open>Retrieval\<close>

text \<open>
  The loop over the hits of \<^verbatim>\<open>_retrieve_relevant_info\<close>: a hit with a negative handle is
  skipped; another one is resolved to its identifier (\<^verbatim>\<open>IndexError\<close> out of range) and
  to its document (\<^verbatim>\<open>KeyError\<close> when the identifier is not stored).
\<close>

fun resolve_hits ::
  "'b chatbot \<Rightarrow> (int \<times> real) list \<Rightarrow> (string \<times> real \<times> problem_data) list
     \<Rightarrow> py_error + (string \<times> real \<times> problem_data) list" where
  "resolve_hits st [] results = Inr results"
| "resolve_hits st ((idx, score) # hits) results =
     (if idx \<ge> 0 then
        (if nat idx < length (problem_ids st) then
           (let problem_id = problem_ids st ! nat idx in
            case problem_data_map st problem_id of
              None \<Rightarrow> Inl (KeyError problem_id)
            | Some pdata \<Rightarrow> resolve_hits st hits (results @ [(problem_id, score, pdata)]))
         else Inl IndexError)
      else resolve_hits st hits results)"

text \<open>The body of the \<^verbatim>\<open>try\<close>: embed the query as it is, search, resolve.\<close>

definition retrieve_try ::
  "'b collaborators \<Rightarrow> 'b chatbot \<Rightarrow> string \<Rightarrow> int
     \<Rightarrow> (py_error + (string \<times> real \<times> problem_data) list) \<times> 'b chatbot" where
  "retrieve_try c st query top_k =
     (case get_bert_embedding c query of
        Inl e \<Rightarrow> (Inl e, emit (EmbedCall query) st)
      | Inr query_embedding \<Rightarrow>
          (let st2 = emit (SearchCall top_k) (emit (EmbedCall query) st) in
           case index_search (index st2) query_embedding top_k of
             Inl e \<Rightarrow> (Inl e, st2)
           | Inr hits \<Rightarrow> (resolve_hits st2 hits [], st2)))"

text \<open>
  \<^verbatim>\<open>_retrieve_relevant_info\<close>: any exception of the body is printed and the empty list
  is returned.
\<close>

definition retrieve_relevant_info ::
  "'b collaborators \<Rightarrow> 'b chatbot \<Rightarrow> string \<Rightarrow> int
     \<Rightarrow> (string \<times> real \<times> problem_data) list \<times> 'b chatbot" where
  "retrieve_relevant_info c st query top_k =
     (case retrieve_try c st query top_k of
        (Inr results, st') \<Rightarrow> (results, st')
      | (Inl e, st') \<Rightarrow> ([], emit (Print (''Retrieval error: '' @ error_str e)) st'))"

subsection \<open>Responding\<close>

text \<open>
  The retrieved problems as text: one entry for each, joined by newlines. Rendering a
  document that is no dictionary raises.
\<close>

fun rag_entries ::
  "'b collaborators \<Rightarrow> (string \<times> real \<times> problem_data) list \<Rightarrow> py_error + string list" where
  "rag_entries c [] = Inr []"
| "rag_entries c ((pid, score, pdata) # rest) =
     (case create_problem_context pdata of
        Inl e \<Rightarrow> Inl e
      | Inr context \<Rightarrow>
          (case rag_entries c rest of
             Inl e \<Rightarrow> Inl e
           | Inr entries \<Rightarrow>
               Inr ((''Relevant Problem '' @ pid @ '' (score: '' @ format_2f c score @ ''):''
                     @ [CHR 0x0A] @ context) # entries)))"

definition final_prompt :: "string \<Rightarrow> string \<Rightarrow> string \<Rightarrow> string" where
  "final_prompt user_input rag_context current_context =
     ''User question: '' @ user_input @ [CHR 0x0A, CHR 0x0A]
     @ ''Retrieved relevant information:'' @ [CHR 0x0A] @ rag_context @ [CHR 0x0A]
     @ current_context @ [CHR 0x0A, CHR 0x0A]
     @ ''Provide a detailed response that:'' @ [CHR 0x0A]
     @ ''1. Directly addresses the user'' @ [CHR 0x27] @ ''s question'' @ [CHR 0x0A]
     @ ''2. References relevant information from similar problems when helpful'' @ [CHR 0x0A]
     @ ''3. Maintains focus on competitive programming best practices''"

text \<open>The test of \<^verbatim>\<open>respond\<close> on the stripped input: a greeting occurs in its lower case.\<close>

definition is_greeting :: "string \<Rightarrow> bool" where
  "is_greeting user_input =
     list_ex (\<lambda>greet. sublist greet (lower user_input)) [''hi'', ''hello'', ''hey'']"

text \<open>
  What \<^verbatim>\<open>respond\<close> does after the test has let the input through: retrieval with the
  default \<open>top_k = 3\<close>, the prompt, the call of the generative model.
\<close>

definition respond_augmented ::
  "'b collaborators \<Rightarrow> 'b chatbot \<Rightarrow> string \<Rightarrow> (py_error + string) \<times> 'b chatbot" where
  "respond_augmented c st user_input =
     (case retrieve_relevant_info c st user_input 3 of
        (retrieved, st2) \<Rightarrow>
          (case rag_entries c retrieved of
             Inl e \<Rightarrow> (Inl e, st2)
           | Inr entries \<Rightarrow>
               (case (if current_problem_set c (base st2) \<and> problem_data_set c (base st2)
                      then (case super_build_context c (base st2) of
                              Inl e \<Rightarrow> Inl e
                            | Inr ctx \<Rightarrow>
                                Inr ([CHR 0x0A] @ ''Current Problem Context:'' @ [CHR 0x0A] @ ctx))
                      else Inr []) of
                  Inl e \<Rightarrow> (Inl e, st2)
                | Inr current_context \<Rightarrow>
                    (case build_system_message c (base st2) of
                       Inl e \<Rightarrow> (Inl e, st2)
                     | Inr system_message \<Rightarrow>
                         (let prompt = final_prompt user_input (join [CHR 0x0A] entries)
                                         current_context;
                              st3 = emit (GenerateCall prompt) st2
                          in case generate_response c prompt (base st3) system_message of
                               (response, b') \<Rightarrow> (response, st3\<lparr>base := b'\<rparr>))))))"

text \<open>
  \<^verbatim>\<open>respond\<close>: the base class answers the stripped input first; its answer is returned
  as it is for a greeting, and when no current problem is set once it has answered.
\<close>

definition respond ::
  "'b collaborators \<Rightarrow> 'b chatbot \<Rightarrow> string \<Rightarrow> (py_error + string) \<times> 'b chatbot" where
  "respond c st raw_input =
     (let user_input = strip raw_input in
      case super_respond c (base st) user_input of
        (Inl e, b1) \<Rightarrow> (Inl e, st\<lparr>base := b1\<rparr>)
      | (Inr parent_response, b1) \<Rightarrow>
          (if is_greeting user_input \<or> \<not> current_problem_set c b1
           then (Inr parent_response, st\<lparr>base := b1\<rparr>)
           else respond_augmented c (st\<lparr>base := b1\<rparr>) user_input))"

section \<open>Notions used in the statements\<close>

subsection \<open>The corpus and its documents\<close>

text \<open>
  The identifiers of the documents of a directory listing, in enumeration order: what
  the build loop computes from the names ending in ".json".
\<close>

definition corpus_ids :: "string list \<Rightarrow> string list" where
  "corpus_ids files = map splitext_root (filter (suffix ''.json'') files)"

text \<open>
  What the body of the \<^verbatim>\<open>try\<close> computes for one document: its context (load, render),
  and its outcome (load, render, embed), which is an exception or the document with its
  vector.
\<close>

definition document_context :: "'b collaborators \<Rightarrow> string \<Rightarrow> py_error + string" where
  "document_context c problem_id =
     (case load_problem c problem_id of
        Inl e \<Rightarrow> Inl e
      | Inr pdata \<Rightarrow> create_problem_context pdata)"

definition document_outcome :: "'b collaborators \<Rightarrow> string \<Rightarrow> py_error + problem_data \<times> vec" where
  "document_outcome c problem_id =
     (case load_problem c problem_id of
        Inl e \<Rightarrow> Inl e
      | Inr pdata \<Rightarrow>
          (case create_problem_context pdata of
             Inl e \<Rightarrow> Inl e
           | Inr context \<Rightarrow>
               (case get_bert_embedding c context of
                  Inl e \<Rightarrow> Inl e
                | Inr embedding \<Rightarrow> Inr (pdata, embedding))))"

definition embedding_of :: "'b collaborators \<Rightarrow> string \<Rightarrow> vec" where
  "embedding_of c problem_id = snd (projr (document_outcome c problem_id))"

text \<open>The documents that are built, those that fail, and the line printed for a failure.\<close>

definition succeeded :: "'b collaborators \<Rightarrow> string list \<Rightarrow> string list" where
  "succeeded c ids = filter (\<lambda>pid. \<not> isl (document_outcome c pid)) ids"

definition failed :: "'b collaborators \<Rightarrow> string list \<Rightarrow> string list" where
  "failed c ids = filter (\<lambda>pid. isl (document_outcome c pid)) ids"

definition failure_line :: "'b collaborators \<Rightarrow> string \<Rightarrow> string" where
  "failure_line c problem_id =
     ''Error loading problem '' @ problem_id @ '': ''
       @ error_str (projl (document_outcome c problem_id))"

text \<open>The identifier-to-document map a build leaves: the documents built, by identifier.\<close>

definition indexed_documents :: "'b collaborators \<Rightarrow> string list \<Rightarrow> string \<rightharpoonup> problem_data" where
  "indexed_documents c ids =
     (\<lambda>pid. if pid \<in> set (succeeded c ids)
            then Some (fst (projr (document_outcome c pid))) else None)"

subsection \<open>Reading the trace\<close>

text \<open>The lines printed, and the texts handed to the embedder, in order.\<close>

fun printed :: "event list \<Rightarrow> string list" where
  "printed [] = []"
| "printed (Print s # es) = s # printed es"
| "printed (e # es) = printed es"

fun embedded :: "event list \<Rightarrow> string list" where
  "embedded [] = []"
| "embedded (EmbedCall s # es) = s # embedded es"
| "embedded (e # es) = embedded es"

subsection \<open>Hits and results\<close>

text \<open>
  The hits of a search that are results: those whose handle is not negative. The scored
  entries of an index are its vectors with their handles and inner products. One hit
  ranks before another when its score is greater, or equal with a lower handle.
\<close>

definition valid_hits :: "(int \<times> real) list \<Rightarrow> (int \<times> real) list" where
  "valid_hits hits = filter (\<lambda>(idx, score). idx \<ge> 0) hits"

definition scored :: "index_flat_ip \<Rightarrow> vec \<Rightarrow> (int \<times> real) list" where
  "scored idx q = map (\<lambda>(h, v). (int h, inner_product q v)) (enumerate 0 (index_xb idx))"

definition ranks_before :: "int \<times> real \<Rightarrow> int \<times> real \<Rightarrow> bool" where
  "ranks_before a b = (snd a > snd b \<or> (snd a = snd b \<and> fst a < fst b))"

text \<open>
  A result of retrieval resolves a hit: the identifier stored at the hit's handle, the
  hit's score, and the document stored under that identifier.
\<close>

definition resolves_to :: "'b chatbot \<Rightarrow> int \<times> real \<Rightarrow> string \<times> real \<times> problem_data \<Rightarrow> bool" where
  "resolves_to st hit result =
     (case (hit, result) of
        ((idx, score), (problem_id, score', pdata)) \<Rightarrow>
          0 \<le> idx \<and> nat idx < length (problem_ids st)
          \<and> problem_id = problem_ids st ! nat idx
          \<and> score' = score
          \<and> problem_data_map st problem_id = Some pdata)"

section \<open>A small corpus\<close>

text \<open>
  Stand-ins for the collaborators, on which the theorems below are tried: a loader that
  knows two problems, returns no dictionary for a third and fails on every other
  identifier; an embedder of dimension 768 that fails on the empty text; a base class
  whose state is one truth value, whether a current problem is set.
\<close>

definition demo_collab :: "bool collaborators" where
  "demo_collab =
     \<lparr>load_problem = (\<lambda>pid.
          if pid = ''p1'' then Inr (PyDict [''title'' \<mapsto> PyStr ''Two Sum''])
          else if pid = ''p2'' then Inr (PyDict [''title'' \<mapsto> PyStr ''Graph BFS''])
          else if pid = ''p3'' then Inr PyNoneData
          else Inl (OtherException ''No such file'')),
      get_bert_embedding = (\<lambda>t.
          if t = [] then Inl (OtherException ''empty input'')
          else Inr (replicate 768 (real (length t)))),
      super_respond = (\<lambda>b s. (Inr (''base: '' @ s), b)),
      current_problem_set = (\<lambda>b. b),
      problem_data_set = (\<lambda>b. b),
      super_build_context = (\<lambda>b. Inr ''context''),
      build_system_message = (\<lambda>b. Inr ''system''),
      generate_response = (\<lambda>p b s. (Inr ''generated'', b)),
      format_2f = (\<lambda>r. ''0.00'')\<rparr>"

definition demo_files :: "string list" where
  "demo_files = [''p1.json'', ''notes.txt'', ''p9.json'', ''p3.json'', ''p2.json'']"

text \<open>
  An embedder of dimension 2, a state with one document, the same state with its
  identifier and its document lost, and an index of dimension 1 with two equal vectors.
\<close>

definition small_collab :: "bool collaborators" where
  "small_collab =
     demo_collab\<lparr>get_bert_embedding := (\<lambda>t.
        if t = [] then Inl (OtherException ''empty input'')
        else Inr [real (length t), 1])\<rparr>"

definition one_doc_state :: "bool chatbot" where
  "one_doc_state =
     \<lparr>base = True, problem_ids = [''p1''],
      problem_data_map = [''p1'' \<mapsto> PyDict [''title'' \<mapsto> PyStr ''Two Sum'']],
      index = \<lparr>index_d = 2, index_xb = [[1, 2]]\<rparr>, trace = []\<rparr>"

definition broken_state :: "bool chatbot" where
  "broken_state = one_doc_state\<lparr>problem_ids := [], problem_data_map := Map.empty\<rparr>"

definition tied_index :: index_flat_ip where
  "tied_index = \<lparr>index_d = 1, index_xb = [[1], [2], [1]]\<rparr>"

text \<open>A loader that returns an empty dictionary for every identifier.\<close>

definition dot_collab :: "bool collaborators" where
  "dot_collab = demo_collab\<lparr>load_problem := (\<lambda>pid. Inr (PyDict Map.empty))\<rparr>"


section \<open>The build loop\<close>

lemma printed_append: "printed (xs @ ys) = printed xs @ printed ys"
  by (induction xs rule: printed.induct) auto

lemma embedded_append: "embedded (xs @ ys) = embedded xs @ embedded ys"
  by (induction xs rule: embedded.induct) auto

lemma try_index_problem_cases:
  "\<exists>st'. try_index_problem c pid (embs, st) =
       (case document_outcome c pid of Inl e \<Rightarrow> (Some e, embs, st')
        | Inr r \<Rightarrow> (None, embs @ [snd r], st'))
     \<and> problem_ids st' = problem_ids st @ succeeded c [pid]
     \<and> problem_data_map st' = problem_data_map st ++ indexed_documents c [pid]
     \<and> index st' = index st \<and> base st' = base st
     \<and> printed (trace st') = printed (trace st)
     \<and> embedded (trace st') =
         embedded (trace st) @ map (\<lambda>p. projr (document_context c p))
                                  (filter (\<lambda>p. \<not> isl (document_context c p)) [pid])"
  by (auto simp: document_outcome_def document_context_def try_index_problem_def emit_def
        printed_append embedded_append succeeded_def indexed_documents_def map_add_def fun_eq_iff
        split: sum.splits)

lemma build_loop_result:
  "\<exists>st'. build_loop c files (embs, st) =
       (embs @ map (embedding_of c) (succeeded c (corpus_ids files)), st')
     \<and> problem_ids st' = problem_ids st @ succeeded c (corpus_ids files)
     \<and> problem_data_map st' = problem_data_map st ++ indexed_documents c (corpus_ids files)
     \<and> index st' = index st \<and> base st' = base st
     \<and> printed (trace st') = printed (trace st) @ map (failure_line c) (failed c (corpus_ids files))
     \<and> embedded (trace st') =
         embedded (trace st) @ map (\<lambda>p. projr (document_context c p))
                                  (filter (\<lambda>p. \<not> isl (document_context c p)) (corpus_ids files))"
proof (induction files arbitrary: embs st)
  case Nil
  then show ?case
    by (simp add: corpus_ids_def succeeded_def failed_def indexed_documents_def)
next
  case (Cons f files)
  show ?case
  proof (cases "suffix ''.json'' f")
    case False
    then have "corpus_ids (f # files) = corpus_ids files"
      by (simp add: corpus_ids_def)
    then show ?thesis using Cons.IH [of embs st] False by simp
  next
    case True
    let ?pid = "splitext_root f"
    have ids: "corpus_ids (f # files) = ?pid # corpus_ids files"
      using True by (simp add: corpus_ids_def)
    obtain st1 where t: "try_index_problem c ?pid (embs, st) =
          (case document_outcome c ?pid of Inl e \<Rightarrow> (Some e, embs, st1)
           | Inr r \<Rightarrow> (None, embs @ [snd r], st1))"
      and p1: "problem_ids st1 = problem_ids st @ succeeded c [?pid]"
      and m1: "problem_data_map st1 = problem_data_map st ++ indexed_documents c [?pid]"
      and i1: "index st1 = index st" and b1: "base st1 = base st"
      and pr1: "printed (trace st1) = printed (trace st)"
      and e1: "embedded (trace st1) =
         embedded (trace st) @ map (\<lambda>p. projr (document_context c p))
                                  (filter (\<lambda>p. \<not> isl (document_context c p)) [?pid])"
      using try_index_problem_cases [of c ?pid embs st] by blast
    have "indexed_documents c [?pid] ++ indexed_documents c (corpus_ids files)
                  = indexed_documents c (?pid # corpus_ids files)"
      by (auto simp: indexed_documents_def succeeded_def map_add_def fun_eq_iff)
    then have maps: "(m ++ indexed_documents c [?pid]) ++ indexed_documents c (corpus_ids files)
                  = m ++ indexed_documents c (?pid # corpus_ids files)" for m
      by (metis map_add_assoc)
    show ?thesis
    proof (cases "document_outcome c ?pid")
      case (Inl e)
      let ?st2 = "emit (Print (''Error loading problem '' @ ?pid @ '': '' @ error_str e)) st1"
      have step: "build_loop c (f # files) (embs, st) = build_loop c files (embs, ?st2)"
        using True t Inl by simp
      obtain st' where r: "build_loop c files (embs, ?st2) =
           (embs @ map (embedding_of c) (succeeded c (corpus_ids files)), st')"
        and rest: "problem_ids st' = problem_ids ?st2 @ succeeded c (corpus_ids files)"
          "problem_data_map st' = problem_data_map ?st2 ++ indexed_documents c (corpus_ids files)"
          "index st' = index ?st2" "base st' = base ?st2"
          "printed (trace st') = printed (trace ?st2) @ map (failure_line c) (failed c (corpus_ids files))"
          "embedded (trace st') =
             embedded (trace ?st2) @ map (\<lambda>p. projr (document_context c p))
                                  (filter (\<lambda>p. \<not> isl (document_context c p)) (corpus_ids files))"
        using Cons.IH [of embs ?st2] by blast
      show ?thesis
        using step r rest p1 m1 i1 b1 pr1 e1 Inl maps
        by (simp add: ids emit_def succeeded_def failed_def failure_line_def
              printed_append embedded_append del: build_loop.simps)
    next
      case (Inr r)
      have step: "build_loop c (f # files) (embs, st) = build_loop c files (embs @ [snd r], st1)"
        using True t Inr by simp
      obtain st' where r': "build_loop c files (embs @ [snd r], st1) =
           ((embs @ [snd r]) @ map (embedding_of c) (succeeded c (corpus_ids files)), st')"
        and rest: "problem_ids st' = problem_ids st1 @ succeeded c (corpus_ids files)"
          "problem_data_map st' = problem_data_map st1 ++ indexed_documents c (corpus_ids files)"
          "index st' = index st1" "base st' = base st1"
          "printed (trace st') = printed (trace st1) @ map (failure_line c) (failed c (corpus_ids files))"
          "embedded (trace st') =
             embedded (trace st1) @ map (\<lambda>p. projr (document_context c p))
                                  (filter (\<lambda>p. \<not> isl (document_context c p)) (corpus_ids files))"
        using Cons.IH [of "embs @ [snd r]" st1] by blast
      show ?thesis
        using step r' rest p1 m1 i1 b1 pr1 e1 Inr maps
        by (simp add: ids succeeded_def failed_def embedding_of_def del: build_loop.simps)
    qed
  qed
qed

lemma embedding_of_dimension:
  assumes "\<forall>t v. get_bert_embedding c t = Inr v \<longrightarrow> length v = n"
  shows "list_all (\<lambda>v. length v = n) (map (embedding_of c) (succeeded c ids))"
proof -
  have "length (embedding_of c pid) = n" if "\<not> isl (document_outcome c pid)" for pid
    using that assms
    by (auto simp: embedding_of_def document_outcome_def split: sum.splits)
  then show ?thesis
    by (simp add: list_all_iff succeeded_def)
qed

lemma chatbot_init_result:
  assumes "\<forall>t v. get_bert_embedding c t = Inr v \<longrightarrow> length v = 768"
  shows "\<exists>st. chatbot_init c b files = Inr st
     \<and> problem_ids st = succeeded c (corpus_ids files)
     \<and> problem_data_map st = indexed_documents c (corpus_ids files)
     \<and> index st = \<lparr>index_d = 768,
                    index_xb = map (embedding_of c) (succeeded c (corpus_ids files))\<rparr>
     \<and> base st = b
     \<and> printed (trace st) =
         ''Building knowledge base...'' # map (failure_line c) (failed c (corpus_ids files))
           @ [''Knowledge base built with ''
                @ str_nat (length (succeeded c (corpus_ids files))) @ '' problems'']
     \<and> embedded (trace st) =
         map (\<lambda>p. projr (document_context c p))
             (filter (\<lambda>p. \<not> isl (document_context c p)) (corpus_ids files))"
proof -
  let ?st0 = "emit (Print ''Building knowledge base...'')
                \<lparr>base = b, problem_ids = [], problem_data_map = Map.empty,
                 index = \<lparr>index_d = 768, index_xb = []\<rparr>, trace = []\<rparr>"
  let ?vs = "map (embedding_of c) (succeeded c (corpus_ids files))"
  obtain st1 where loop: "build_loop c files ([], ?st0) = (?vs, st1)"
    and f: "problem_ids st1 = problem_ids ?st0 @ succeeded c (corpus_ids files)"
      "problem_data_map st1 = problem_data_map ?st0 ++ indexed_documents c (corpus_ids files)"
      "index st1 = index ?st0" "base st1 = base ?st0"
      "printed (trace st1) = printed (trace ?st0) @ map (failure_line c) (failed c (corpus_ids files))"
      "embedded (trace st1) =
         embedded (trace ?st0) @ map (\<lambda>p. projr (document_context c p))
                                  (filter (\<lambda>p. \<not> isl (document_context c p)) (corpus_ids files))"
    using build_loop_result [of c files "[]" ?st0] by auto
  have dim: "list_all (\<lambda>v. length v = 768) ?vs"
    using assms by (rule embedding_of_dimension)
  have add: "(if ?vs \<noteq> [] then index_add (index st1) ?vs else Inr (index st1))
               = Inr \<lparr>index_d = 768, index_xb = ?vs\<rparr>"
    using dim f(3) by (simp add: index_add_def emit_def)
  have "chatbot_init c b files =
          Inr (emit (Print (''Knowledge base built with ''
                             @ str_nat (length (problem_ids st1)) @ '' problems''))
                 (st1\<lparr>index := \<lparr>index_d = 768, index_xb = ?vs\<rparr>\<rparr>))"
    unfolding chatbot_init_def build_knowledge_base_def loop prod.case add by simp
  then show ?thesis
    using f by (simp add: emit_def printed_append embedded_append)
qed

section \<open>The index search\<close>

lemma insort_ranks:
  assumes "sorted_wrt ranks_before ys" and "\<forall>y \<in> set ys. fst x < fst y"
  shows "sorted_wrt ranks_before (insort_key (\<lambda>(h, s). - s) x ys)"
  using assms
proof (induction ys)
  case Nil
  then show ?case by simp
next
  case (Cons y ys)
  then show ?case
    by (auto simp: ranks_before_def set_insort_key split_beta)
qed

lemma sort_ranks:
  assumes "sorted_wrt (\<lambda>a b. fst a < fst b) xs"
  shows "sorted_wrt ranks_before (sort_key (\<lambda>(h, s). - s) xs)"
  using assms
proof (induction xs)
  case Nil
  then show ?case by simp
next
  case (Cons x xs)
  then show ?case by (simp add: insort_ranks)
qed

lemma length_scored [simp]: "length (scored idx q) = length (index_xb idx)"
  by (simp add: scored_def)

lemma map_fst_scored: "map fst (scored idx q) = map int [0..<length (index_xb idx)]"
proof -
  have "fst \<circ> (\<lambda>(h, v). (int h, inner_product q v)) = int \<circ> fst"
    by (auto simp: fun_eq_iff)
  then have "map fst (scored idx q) = map int (map fst (enumerate 0 (index_xb idx)))"
    unfolding scored_def map_map by simp
  then show ?thesis by simp
qed

lemma scored_handles_increasing: "sorted_wrt (\<lambda>a b. fst a < fst b) (scored idx q)"
proof -
  have "sorted_wrt (<) (map fst (scored idx q))"
    unfolding map_fst_scored by (simp add: sorted_wrt_map)
  then show ?thesis by (simp add: sorted_wrt_map)
qed

lemma scored_set:
  "(h, s) \<in> set (scored idx q) \<Longrightarrow>
     0 \<le> h \<and> nat h < length (index_xb idx) \<and> s = inner_product q (index_xb idx ! nat h)"
  by (auto simp: scored_def in_set_enumerate_eq)

lemma index_search_eq:
  "index_search idx q k =
     (if length q \<noteq> index_d idx \<or> k \<le> 0 then Inl AssertionError
      else Inr (take (nat k) (sort_key (\<lambda>(h, s). - s) (scored idx q))
                @ replicate (nat k - min (nat k) (length (index_xb idx))) (- 1, no_result_score)))"
  by (simp add: index_search_def Let_def min.commute flip: scored_def)

lemma valid_hits_search:
  assumes "index_search idx q k = Inr hits"
  shows "valid_hits hits = take (nat k) (sort_key (\<lambda>(h, s). - s) (scored idx q))"
proof -
  let ?top = "take (nat k) (sort_key (\<lambda>(h, s). - s) (scored idx q))"
  have "\<forall>x \<in> set ?top. 0 \<le> fst x"
    using scored_set [of _ _ idx q] by (auto dest!: in_set_takeD)
  then have "filter (\<lambda>(idx, score). idx \<ge> 0) ?top = ?top"
    by (auto simp: filter_id_conv)
  then show ?thesis
    using assms by (auto simp: index_search_eq valid_hits_def split: if_splits)
qed

lemma length_search:
  "index_search idx q k = Inr hits \<Longrightarrow> length hits = nat k"
  by (auto simp: index_search_eq min.commute split: if_splits)

lemma length_valid_hits:
  "index_search idx q k = Inr hits \<Longrightarrow>
     length (valid_hits hits) = min (nat k) (length (index_xb idx))"
  by (simp add: valid_hits_search min.commute)

lemma valid_hits_ranked:
  assumes "index_search idx q k = Inr hits"
  shows "sorted_wrt ranks_before (valid_hits hits)"
  unfolding valid_hits_search [OF assms]
  by (intro sorted_wrt_take sort_ranks scored_handles_increasing)

lemma valid_hits_scores:
  assumes "index_search idx q k = Inr hits" and "(h, s) \<in> set (valid_hits hits)"
  shows "0 \<le> h \<and> nat h < length (index_xb idx) \<and> s = inner_product q (index_xb idx ! nat h)"
  using assms(2) unfolding valid_hits_search [OF assms(1)]
  by (auto dest!: in_set_takeD scored_set)

section \<open>Retrieval\<close>

lemma resolve_hits_ok:
  "resolve_hits st hits acc = Inr res \<Longrightarrow>
     \<exists>new. res = acc @ new \<and> list_all2 (resolves_to st) (valid_hits hits) new"
proof (induction st hits acc arbitrary: res rule: resolve_hits.induct)
  case (1 st results)
  then show ?case by (simp add: valid_hits_def)
next
  case (2 st idx score hits results)
  show ?case
  proof (cases "idx \<ge> 0")
    case False
    then show ?thesis using 2 by (simp add: valid_hits_def)
  next
    case True
    with "2.prems" have inr: "nat idx < length (problem_ids st)"
      by (simp split: if_splits)
    with True "2.prems" obtain pdata where
      some: "problem_data_map st (problem_ids st ! nat idx) = Some pdata"
      by (auto simp: Let_def split: option.splits)
    with True inr "2.prems" have
      "resolve_hits st hits (results @ [(problem_ids st ! nat idx, score, pdata)]) = Inr res"
      by (simp add: Let_def)
    from "2.IH"(1) [OF True inr refl some this] obtain new where
      "res = (results @ [(problem_ids st ! nat idx, score, pdata)]) @ new"
      "list_all2 (resolves_to st) (valid_hits hits) new" by blast
    moreover have "resolves_to st (idx, score) (problem_ids st ! nat idx, score, pdata)"
      using True inr some by (simp add: resolves_to_def)
    ultimately show ?thesis using True
      by (simp add: valid_hits_def)
  qed
qed

lemma resolve_hits_error:
  "resolve_hits st hits acc = Inl e \<Longrightarrow> e = IndexError \<or> (\<exists>key. e = KeyError key)"
  by (induction st hits acc rule: resolve_hits.induct)
     (auto simp: Let_def split: if_splits option.splits)

lemma resolve_hits_out_of_range:
  assumes "(idx, score) \<in> set hits" and "0 \<le> idx" and "length (problem_ids st) \<le> nat idx"
  shows "isl (resolve_hits st hits acc)"
  using assms
  by (induction st hits acc rule: resolve_hits.induct)
     (auto simp: Let_def split: if_splits option.splits)

lemma retrieve_try_state:
  "snd (retrieve_try c st query k) =
     st\<lparr>trace := trace st @ EmbedCall query
            # (if isl (get_bert_embedding c query) then [] else [SearchCall k])\<rparr>"
  by (auto simp: retrieve_try_def emit_def Let_def split: sum.splits)

lemma retrieve_state:
  "snd (retrieve_relevant_info c st query k) =
     st\<lparr>trace := trace st @ EmbedCall query
            # (if isl (get_bert_embedding c query) then [] else [SearchCall k])
            @ (case fst (retrieve_try c st query k) of
                 Inl e \<Rightarrow> [Print (''Retrieval error: '' @ error_str e)] | Inr _ \<Rightarrow> [])\<rparr>"
  using retrieve_try_state [of c st query k]
  by (cases "retrieve_try c st query k")
     (auto simp: retrieve_relevant_info_def emit_def split: sum.splits)

lemma retrieve_result:
  "fst (retrieve_relevant_info c st query k) =
     (case fst (retrieve_try c st query k) of Inl e \<Rightarrow> [] | Inr results \<Rightarrow> results)"
  by (cases "retrieve_try c st query k")
     (auto simp: retrieve_relevant_info_def split: sum.splits)

lemma retrieve_try_ok:
  assumes "fst (retrieve_try c st query k) = Inr results"
  shows "\<exists>qv hits. get_bert_embedding c query = Inr qv
           \<and> index_search (index st) qv k = Inr hits
           \<and> list_all2 (resolves_to st) (valid_hits hits) results"
proof -
  from assms obtain qv where qv: "get_bert_embedding c query = Inr qv"
    by (auto simp: retrieve_try_def split: sum.splits)
  let ?st2 = "emit (SearchCall k) (emit (EmbedCall query) st)"
  from assms qv obtain hits where hits: "index_search (index st) qv k = Inr hits"
    by (auto simp: retrieve_try_def emit_def Let_def split: sum.splits)
  with assms qv have "resolve_hits ?st2 hits [] = Inr results"
    by (simp add: retrieve_try_def emit_def Let_def)
  from resolve_hits_ok [OF this] have "list_all2 (resolves_to ?st2) (valid_hits hits) results"
    by simp
  moreover have "resolves_to ?st2 = resolves_to st"
    by (simp add: resolves_to_def emit_def fun_eq_iff)
  ultimately show ?thesis using qv hits by simp
qed

section \<open>Bounds and order of retrieval\<close>

lemma retrieve_length:
  "length (fst (retrieve_relevant_info c st query k))
     \<le> min (nat k) (length (index_xb (index st)))"
proof (cases "fst (retrieve_try c st query k)")
  case (Inl e)
  then show ?thesis by (simp add: retrieve_result)
next
  case (Inr results)
  from retrieve_try_ok [OF Inr] obtain qv hits where
    "index_search (index st) qv k = Inr hits"
    "list_all2 (resolves_to st) (valid_hits hits) results" by blast
  then have "length results = min (nat k) (length (index_xb (index st)))"
    using length_valid_hits [of "index st" qv k hits] by (auto dest: list_all2_lengthD)
  then show ?thesis using Inr by (simp add: retrieve_result)
qed

lemma chatbot_init_empty:
  assumes "corpus_ids files = []"
  shows "\<exists>st. chatbot_init c b files = Inr st \<and> problem_ids st = []
           \<and> problem_data_map st = Map.empty
           \<and> index st = \<lparr>index_d = 768, index_xb = []\<rparr>"
proof -
  let ?st0 = "emit (Print ''Building knowledge base...'')
                \<lparr>base = b, problem_ids = [], problem_data_map = Map.empty,
                 index = \<lparr>index_d = 768, index_xb = []\<rparr>, trace = []\<rparr>"
  obtain st1 where loop: "build_loop c files ([], ?st0) = ([], st1)"
    and f: "problem_ids st1 = []" "problem_data_map st1 = Map.empty"
      "index st1 = \<lparr>index_d = 768, index_xb = []\<rparr>"
    using build_loop_result [of c files "[]" ?st0] assms
    by (auto simp: succeeded_def indexed_documents_def emit_def)
  show ?thesis
    unfolding chatbot_init_def build_knowledge_base_def loop
    using f by (simp add: emit_def)
qed

lemma search_single:
  assumes "index_xb idx = [v]" and "length qv = index_d idx"
  shows "index_search idx qv 3 =
           Inr [(0, inner_product qv v), (- 1, no_result_score), (- 1, no_result_score)]"
  using assms by (simp add: index_search_def enumerate_eq_zip numeral_3_eq_3)

lemma resolved_scores:
  "list_all2 (resolves_to st) ranked results \<Longrightarrow>
     map (\<lambda>r. fst (snd r)) results = map snd ranked"
  by (induction rule: list_all2_induct) (auto simp: resolves_to_def)

lemma scores_sorted:
  assumes "sorted_wrt ranks_before ranked" and "list_all2 (resolves_to st) ranked results"
  shows "sorted_wrt (\<lambda>a b. fst (snd a) \<ge> fst (snd b)) results"
proof -
  have "sorted_wrt (\<lambda>a b. snd a \<ge> snd b) ranked"
    using assms(1) by (rule sorted_wrt_mono_rel [rotated]) (auto simp: ranks_before_def)
  then have "sorted_wrt (\<ge>) (map snd ranked)"
    by (simp add: sorted_wrt_map)
  then have "sorted_wrt (\<ge>) (map (\<lambda>r. fst (snd r)) results)"
    by (simp add: resolved_scores [OF assms(2)])
  then show ?thesis by (simp add: sorted_wrt_map)
qed

lemma retrieve_ranked:
  "\<exists>ranked. sorted_wrt ranks_before ranked
     \<and> list_all2 (resolves_to st) ranked (fst (retrieve_relevant_info c st query k))"
proof (cases "fst (retrieve_try c st query k)")
  case (Inl e)
  then have "fst (retrieve_relevant_info c st query k) = []" by (simp add: retrieve_result)
  then show ?thesis by (intro exI [of _ "[]"]) simp
next
  case (Inr results)
  from retrieve_try_ok [OF Inr] obtain qv hits where
    "index_search (index st) qv k = Inr hits"
    "list_all2 (resolves_to st) (valid_hits hits) results" by blast
  then show ?thesis using Inr valid_hits_ranked [of "index st" qv k hits]
    by (auto simp: retrieve_result)
qed

lemma count_list_distinct:
  "distinct xs \<Longrightarrow> x \<in> set xs \<Longrightarrow> count_list xs x = 1"
  by (induction xs) auto

lemma count_list_filter:
  "P x \<Longrightarrow> count_list (filter P xs) x = count_list xs x"
  by (induction xs) auto





section \<open>Stripping and greetings\<close>

lemma sublist_skip_prefix:
  assumes "g \<noteq> []" and "\<forall>x \<in> set a. x \<notin> set g"
  shows "sublist g (a @ ys) \<longleftrightarrow> sublist g ys"
  using assms(2)
proof (induction a)
  case Nil
  then show ?case by simp
next
  case (Cons x a)
  have "\<not> prefix g (x # a @ ys)"
  proof
    assume "prefix g (x # a @ ys)"
    with assms(1) have "x \<in> set g" by (cases g) auto
    with Cons.prems show False by simp
  qed
  then show ?case using Cons by (simp add: sublist_Cons_right)
qed

lemma sublist_dropWhile:
  assumes "g \<noteq> []" and "\<forall>x \<in> set g. \<not> P x"
  shows "sublist g (dropWhile P s) \<longleftrightarrow> sublist g s"
proof -
  have "\<forall>x \<in> set (takeWhile P s). x \<notin> set g"
    using assms(2) by (auto dest: set_takeWhileD)
  from sublist_skip_prefix [OF assms(1) this, of "dropWhile P s"]
  show ?thesis by simp
qed

lemma sublist_strip:
  assumes "g \<noteq> []" and "\<forall>x \<in> set g. \<not> isspace x"
  shows "sublist g (strip s) \<longleftrightarrow> sublist g s"
proof -
  have r: "rev g \<noteq> []" "\<forall>x \<in> set (rev g). \<not> isspace x"
    using assms by simp_all
  have "sublist g (strip s) \<longleftrightarrow> sublist (rev g) (dropWhile isspace (rev (dropWhile isspace s)))"
    by (simp add: strip_def sublist_rev_right)
  also have "\<dots> \<longleftrightarrow> sublist (rev g) (rev (dropWhile isspace s))"
    by (rule sublist_dropWhile [OF r])
  also have "\<dots> \<longleftrightarrow> sublist g (dropWhile isspace s)"
    by simp
  also have "\<dots> \<longleftrightarrow> sublist g s"
    by (rule sublist_dropWhile [OF assms])
  finally show ?thesis .
qed

lemma isspace_lower_char: "isspace (lower_char ch) = isspace ch"
  by (auto simp: isspace_def lower_char_def)

lemma lower_strip: "lower (strip s) = strip (lower s)"
proof -
  have "isspace \<circ> lower_char = isspace"
    by (simp add: fun_eq_iff isspace_lower_char)
  then show ?thesis
    by (simp add: lower_def strip_def dropWhile_map rev_map)
qed

lemma is_greeting_strip:
  "is_greeting (strip s) = list_ex (\<lambda>greet. sublist greet (lower s)) [''hi'', ''hello'', ''hey'']"
  by (simp add: is_greeting_def lower_strip sublist_strip isspace_def)

section \<open>What responding leaves unchanged\<close>

lemma respond_augmented_frame:
  "problem_ids (snd (respond_augmented c st user_input)) = problem_ids st
   \<and> problem_data_map (snd (respond_augmented c st user_input)) = problem_data_map st
   \<and> index (snd (respond_augmented c st user_input)) = index st"
proof -
  obtain retrieved st2 where r: "retrieve_relevant_info c st user_input 3 = (retrieved, st2)"
    by (cases "retrieve_relevant_info c st user_input 3")
  have "st2 = snd (retrieve_relevant_info c st user_input 3)" using r by simp
  then have f: "problem_ids st2 = problem_ids st" "problem_data_map st2 = problem_data_map st"
    "index st2 = index st"
    by (simp_all add: retrieve_state)
  show ?thesis
    unfolding respond_augmented_def r
    using f by (auto simp: emit_def Let_def split: sum.splits prod.splits)
qed

lemma respond_frame:
  "problem_ids (snd (respond c st user_input)) = problem_ids st
   \<and> problem_data_map (snd (respond c st user_input)) = problem_data_map st
   \<and> index (snd (respond c st user_input)) = index st"
proof (cases "super_respond c (base st) (strip user_input)")
  case (Pair r b1)
  show ?thesis
  proof (cases r)
    case (Inl e)
    then show ?thesis using Pair by (simp add: respond_def Let_def)
  next
    case (Inr parent_response)
    then show ?thesis
      using Pair respond_augmented_frame [of c "st\<lparr>base := b1\<rparr>" "strip user_input"]
      by (simp add: respond_def Let_def)
  qed
qed

section \<open>The small corpus, evaluated\<close>

lemma demo_ids: "corpus_ids demo_files = [''p1'', ''p9'', ''p3'', ''p2'']"
  by (simp add: corpus_ids_def demo_files_def suffix_to_prefix splitext_root_def)

lemma demo_outcomes:
  "\<not> isl (document_outcome demo_collab ''p1'')"
  "document_outcome demo_collab ''p9'' = Inl (OtherException ''No such file'')"
  "isl (document_outcome demo_collab ''p3'')"
  "\<not> isl (document_outcome demo_collab ''p2'')"
  by (simp_all add: document_outcome_def demo_collab_def dict_get_def)

text \<open>An input that goes all the way to the generative model.\<close>

lemma demo_augmented:
  "fst (respond small_collab one_doc_state ''explain the bound'') = Inr ''generated''"
proof -
  have s: "strip ''explain the bound'' = ''explain the bound''"
    by (simp add: strip_def isspace_def)
  have g: "\<not> is_greeting ''explain the bound''"
    by (simp add: is_greeting_def lower_def lower_char_def sublist_code)
  have b: "super_respond small_collab b t = (Inr (''base: '' @ t), b)"
    "current_problem_set small_collab b = b"
    "generate_response small_collab p b sys = (Inr ''generated'', b)"
    "build_system_message small_collab b = Inr ''system''"
    "super_build_context small_collab b = Inr ''context''"
    for b t p sys
    by (simp_all add: small_collab_def demo_collab_def)
  have r: "fst (retrieve_relevant_info small_collab one_doc_state ''explain the bound'' 3)
             = [(''p1'', 19, PyDict [''title'' \<mapsto> PyStr ''Two Sum''])]"
    by (simp add: retrieve_relevant_info_def retrieve_try_def small_collab_def one_doc_state_def
          emit_def search_single inner_product_def)
  have st: "base (snd (retrieve_relevant_info small_collab one_doc_state ''explain the bound'' 3)) = True"
    by (simp add: retrieve_state one_doc_state_def)
  obtain res st2 where rs:
    "retrieve_relevant_info small_collab one_doc_state ''explain the bound'' 3 = (res, st2)"
    by (cases "retrieve_relevant_info small_collab one_doc_state ''explain the bound'' 3")
  with r st have res: "res = [(''p1'', 19, PyDict [''title'' \<mapsto> PyStr ''Two Sum''])]"
    and st2: "base st2 = True" by simp_all
  have o: "one_doc_state\<lparr>base := True\<rparr> = one_doc_state" "base one_doc_state = True"
    by (simp_all add: one_doc_state_def)
  show ?thesis
    by (simp add: respond_def respond_augmented_def s g b o rs res st2 emit_def Let_def)
qed

section \<open>The claims\<close>

text \<open>
  C1. Whatever the corpus, the build completes: with \<open>N\<close> documents (the names ending
  in ".json") of which \<open>M\<close> fail while they are loaded, rendered or embedded, the
  constructor returns a state with \<open>N - M\<close> identifiers and \<open>N - M\<close> vectors in the index,
  and the lines printed are the opening line, one line for each failure, in order, with
  the identifier and the text of the exception, and the closing line with the count
  \<open>N - M\<close>. The embedder is taken at its contract: the vectors it returns have the
  dimension 768 of the index (the one call that is outside the \<^verbatim>\<open>try\<close> adds them).
\<close>

theorem build_skips_failures:
  assumes "\<forall>t v. get_bert_embedding c t = Inr v \<longrightarrow> length v = 768"
  shows "\<exists>st. chatbot_init c b files = Inr st
     \<and> length (problem_ids st)
         = length (corpus_ids files) - length (failed c (corpus_ids files))
     \<and> length (index_xb (index st))
         = length (corpus_ids files) - length (failed c (corpus_ids files))
     \<and> printed (trace st) =
         ''Building knowledge base...'' # map (failure_line c) (failed c (corpus_ids files))
           @ [''Knowledge base built with ''
                @ str_nat (length (corpus_ids files) - length (failed c (corpus_ids files)))
                @ '' problems'']"
proof -
  have "length (succeeded c ids) = length ids - length (failed c ids)" for ids
    using sum_length_filter_compl [of "\<lambda>pid. isl (document_outcome c pid)" ids]
    by (simp add: succeeded_def failed_def)
  then show ?thesis
    using chatbot_init_result [OF assms, of b files] by auto
qed

text \<open>
  On the small corpus: four documents, of which one cannot be loaded and one cannot be
  rendered; two are indexed and two lines report the failures.
\<close>

theorem build_skips_failures_witness:
  "\<exists>st. chatbot_init demo_collab False demo_files = Inr st
     \<and> length (problem_ids st) = 2
     \<and> length (index_xb (index st)) = 2
     \<and> printed (trace st) =
         [''Building knowledge base...'',
          ''Error loading problem p9: No such file'',
          ''Error loading problem p3: '' @ [CHR 0x27] @ ''NoneType'' @ [CHR 0x27]
             @ '' object has no attribute '' @ [CHR 0x27] @ ''get'' @ [CHR 0x27],
          ''Knowledge base built with 2 problems'']"
proof -
  have dim: "\<forall>t v. get_bert_embedding demo_collab t = Inr v \<longrightarrow> length v = 768"
    by (auto simp: demo_collab_def split: if_splits)
  have f: "failed demo_collab [''p1'', ''p9'', ''p3'', ''p2''] = [''p9'', ''p3'']"
    by (simp add: failed_def demo_outcomes)
  have l: "failure_line demo_collab ''p9'' = ''Error loading problem p9: No such file''"
    "failure_line demo_collab ''p3'' = ''Error loading problem p3: '' @ [CHR 0x27] @ ''NoneType'' @ [CHR 0x27]
             @ '' object has no attribute '' @ [CHR 0x27] @ ''get'' @ [CHR 0x27]"
    by (simp_all add: failure_line_def document_outcome_def demo_collab_def)
  have n: "str_nat (Suc (Suc 0)) = ''2''" by code_simp
  show ?thesis
    using build_skips_failures [OF dim, of False demo_files]
    by (simp add: f l n demo_ids numeral_2_eq_2)
qed

text \<open>
  C2, in the form that holds. When a hit of the search has a handle that is not negative and lies
  beyond the identifier sequence, the \<^verbatim>\<open>IndexError\<close> of the lookup (or the \<^verbatim>\<open>KeyError\<close>
  of an earlier hit) is caught by the handler of \<^verbatim>\<open>_retrieve_relevant_info\<close> like
  every other exception: the result is the empty sequence, and one line
  "Retrieval error: ..." is printed. Nothing is raised to the caller.
\<close>

theorem unresolved_handle_caught:
  assumes "get_bert_embedding c query = Inr qv"
    and "index_search (index st) qv k = Inr hits"
    and "(idx, score) \<in> set hits" and "0 \<le> idx"
    and "length (problem_ids st) \<le> nat idx"
  shows "fst (retrieve_relevant_info c st query k) = []
     \<and> (\<exists>e. (e = IndexError \<or> (\<exists>key. e = KeyError key))
          \<and> printed (trace (snd (retrieve_relevant_info c st query k)))
              = printed (trace st) @ [''Retrieval error: '' @ error_str e])"
proof -
  let ?st2 = "emit (SearchCall k) (emit (EmbedCall query) st)"
  have "length (problem_ids ?st2) \<le> nat idx"
    using assms(5) by (simp add: emit_def)
  from resolve_hits_out_of_range [OF assms(3,4) this, of "[]"]
  obtain e where e: "resolve_hits ?st2 hits [] = Inl e"
    by (cases "resolve_hits ?st2 hits []") auto
  then have kind: "e = IndexError \<or> (\<exists>key. e = KeyError key)"
    by (rule resolve_hits_error)
  have "fst (retrieve_try c st query k) = Inl e"
    using assms(1,2) e by (simp add: retrieve_try_def emit_def Let_def)
  then show ?thesis using kind
    by (auto simp: retrieve_result retrieve_state printed_append)
qed

text \<open>
  A state whose index holds one vector and whose identifier sequence is empty: the hit
  with handle 0 cannot be resolved.
\<close>

theorem unresolved_handle_caught_witness:
  "fst (retrieve_relevant_info small_collab broken_state ''hello'' 3) = []
   \<and> (\<exists>e. (e = IndexError \<or> (\<exists>key. e = KeyError key))
        \<and> printed (trace (snd (retrieve_relevant_info small_collab broken_state ''hello'' 3)))
            = [''Retrieval error: '' @ error_str e])"
proof -
  have e: "get_bert_embedding small_collab ''hello'' = Inr [5, 1]"
    by (simp add: small_collab_def)
  have s: "index_search (index broken_state) [5, 1] 3
             = Inr [(0, 7), (- 1, no_result_score), (- 1, no_result_score)]"
    by (simp add: search_single broken_state_def one_doc_state_def inner_product_def)
  have t: "trace broken_state = []" "problem_ids broken_state = []"
    by (simp_all add: broken_state_def one_doc_state_def)
  show ?thesis
    using unresolved_handle_caught [OF e s, of 0 7] by (simp add: t)
qed

text \<open>
  C2, as it is stated, fails on that state: the search returns the handle 0, no
  identifier is stored, and retrieval returns the empty sequence after printing
  "Retrieval error: list index out of range", which is what it does when the embedder
  fails on a query.
\<close>

theorem unresolved_handle_counterexample:
  "get_bert_embedding small_collab ''hello'' = Inr [5, 1]
   \<and> index_search (index broken_state) [5, 1] 3
       = Inr [(0, 7), (- 1, no_result_score), (- 1, no_result_score)]
   \<and> problem_ids broken_state = []
   \<and> retrieve_relevant_info small_collab broken_state ''hello'' 3
       = ([], broken_state\<lparr>trace :=
                [EmbedCall ''hello'', SearchCall 3,
                 Print ''Retrieval error: list index out of range'']\<rparr>)
   \<and> retrieve_relevant_info small_collab broken_state [] 3
       = ([], broken_state\<lparr>trace :=
                [EmbedCall [], Print ''Retrieval error: empty input'']\<rparr>)"
proof -
  have e: "get_bert_embedding small_collab ''hello'' = Inr [5, 1]"
    "get_bert_embedding small_collab [] = Inl (OtherException ''empty input'')"
    by (simp_all add: small_collab_def)
  have s: "index_search (index broken_state) [5, 1] 3
             = Inr [(0, 7), (- 1, no_result_score), (- 1, no_result_score)]"
    by (simp add: search_single broken_state_def one_doc_state_def inner_product_def)
  have i: "index (emit ev st) = index st" "problem_ids (emit ev st) = problem_ids st"
    for ev and st :: "bool chatbot"
    by (simp_all add: emit_def)
  have p: "problem_ids broken_state = []" "trace broken_state = []"
    by (simp_all add: broken_state_def one_doc_state_def)
  show ?thesis
    using e s p
    by (simp add: retrieve_relevant_info_def retrieve_try_def Let_def i)
       (simp add: emit_def)
qed

text \<open>
  C3, in the form that holds. After the build, there are as many identifiers as vectors
  in the index, and as many as documents built; the identifiers are those of the
  documents built, in enumeration order; the vector at each position is the embedding
  of the document whose identifier stands at that position. The identifier of a
  document built occurs once for each name ending in ".json" from which the loop
  derives it, and so exactly once when the identifiers derived from the names are
  pairwise distinct. The embedder is taken at its contract (dimension 768).
\<close>

theorem build_parallel_sequences:
  assumes "\<forall>t v. get_bert_embedding c t = Inr v \<longrightarrow> length v = 768"
  shows "\<exists>st. chatbot_init c b files = Inr st
     \<and> length (problem_ids st) = length (index_xb (index st))
     \<and> length (index_xb (index st)) = length (succeeded c (corpus_ids files))
     \<and> problem_ids st = succeeded c (corpus_ids files)
     \<and> index_xb (index st) = map (embedding_of c) (problem_ids st)
     \<and> list_all (\<lambda>pid. count_list (problem_ids st) pid = count_list (corpus_ids files) pid)
          (succeeded c (corpus_ids files))
     \<and> (distinct (corpus_ids files) \<longrightarrow>
          list_all (\<lambda>pid. count_list (problem_ids st) pid = 1) (succeeded c (corpus_ids files)))"
proof -
  have n: "list_all (\<lambda>pid. count_list (succeeded c ids) pid = count_list ids pid)
             (succeeded c ids)" for ids
    by (simp add: list_all_iff succeeded_def count_list_filter)
  have "list_all (\<lambda>pid. count_list (succeeded c ids) pid = 1) (succeeded c ids)"
    if "distinct ids" for ids
  proof -
    from that have "distinct (succeeded c ids)" by (simp add: succeeded_def)
    then show ?thesis by (simp add: list_all_iff count_list_distinct)
  qed
  then show ?thesis
    using chatbot_init_result [OF assms, of b files] n by auto
qed

text \<open>On the small corpus: the two documents built, in order, each once.\<close>

theorem build_parallel_sequences_witness:
  "\<exists>st. chatbot_init demo_collab False demo_files = Inr st
     \<and> length (problem_ids st) = 2
     \<and> length (index_xb (index st)) = 2
     \<and> problem_ids st = [''p1'', ''p2'']
     \<and> index_xb (index st) = [embedding_of demo_collab ''p1'', embedding_of demo_collab ''p2'']
     \<and> count_list (problem_ids st) ''p1'' = 1
     \<and> count_list (problem_ids st) ''p2'' = 1"
proof -
  have dim: "\<forall>t v. get_bert_embedding demo_collab t = Inr v \<longrightarrow> length v = 768"
    by (auto simp: demo_collab_def split: if_splits)
  have s: "succeeded demo_collab [''p1'', ''p9'', ''p3'', ''p2''] = [''p1'', ''p2'']"
    by (simp add: succeeded_def demo_outcomes)
  show ?thesis
    using build_parallel_sequences [OF dim, of False demo_files]
    by (auto simp: s demo_ids)
qed

text \<open>
  C3, as it is stated, fails on a directory with the two names ".json" and ".json.json":
  \<^verbatim>\<open>os.path.splitext\<close> leaves the first as it is, since only dots stand before its last
  dot, and takes the extension off the second, so both give the identifier ".json";
  with a loader that accepts it, the identifier is stored twice, beside two vectors.
\<close>

theorem build_parallel_sequences_counterexample:
  "distinct [''.json'', ''.json.json'']
   \<and> corpus_ids [''.json'', ''.json.json''] = [''.json'', ''.json'']
   \<and> map_sum id problem_ids (chatbot_init dot_collab False [''.json'', ''.json.json''])
       = Inr [''.json'', ''.json'']
   \<and> map_sum id (\<lambda>st. length (index_xb (index st)))
         (chatbot_init dot_collab False [''.json'', ''.json.json''])
       = Inr 2
   \<and> count_list [''.json'', ''.json''] ''.json'' = 2"
proof -
  have dim: "\<forall>t v. get_bert_embedding dot_collab t = Inr v \<longrightarrow> length v = 768"
    by (auto simp: dot_collab_def demo_collab_def split: if_splits)
  have ids: "corpus_ids [''.json'', ''.json.json''] = [''.json'', ''.json'']"
    by (simp add: corpus_ids_def suffix_to_prefix splitext_root_def)
  have ok: "\<not> isl (document_outcome dot_collab ''.json'')"
    by (simp add: document_outcome_def dot_collab_def demo_collab_def dict_get_def)
  then have s: "succeeded dot_collab [''.json'', ''.json''] = [''.json'', ''.json'']"
    by (simp add: succeeded_def)
  obtain st where "chatbot_init dot_collab False [''.json'', ''.json.json''] = Inr st"
    "problem_ids st = [''.json'', ''.json'']" "length (index_xb (index st)) = 2"
    using chatbot_init_result [OF dim, of False "[''.json'', ''.json.json'']"]
    by (auto simp: ids s)
  then show ?thesis using ids by simp
qed

text \<open>
  C4. The hits of a search that are results are ranked: each one before every later
  one has a greater score, or the same score and a lower handle; the score of a hit is
  the inner product of the query with the vector at its handle. The results of
  retrieval resolve such a ranked sequence of hits, one by one and in order, so their
  scores never increase.
\<close>

theorem search_ranked:
  "(index_search idx q k = Inr hits \<longrightarrow>
      sorted_wrt ranks_before (valid_hits hits)
      \<and> list_all (\<lambda>(h, s). 0 \<le> h \<and> nat h < length (index_xb idx)
                     \<and> s = inner_product q (index_xb idx ! nat h)) (valid_hits hits))
   \<and> sorted_wrt (\<lambda>a b. fst (snd a) \<ge> fst (snd b))
        (fst (retrieve_relevant_info c st query top_k))
   \<and> (\<exists>ranked. sorted_wrt ranks_before ranked
        \<and> list_all2 (resolves_to st) ranked (fst (retrieve_relevant_info c st query top_k)))"
proof -
  have "list_all (\<lambda>(h, s). 0 \<le> h \<and> nat h < length (index_xb idx)
                     \<and> s = inner_product q (index_xb idx ! nat h)) (valid_hits hits)"
    if "index_search idx q k = Inr hits"
    using valid_hits_scores [OF that] by (auto simp: list_all_iff)
  moreover obtain ranked where "sorted_wrt ranks_before ranked"
     "list_all2 (resolves_to st) ranked (fst (retrieve_relevant_info c st query top_k))"
    using retrieve_ranked [of st c query top_k] by blast
  ultimately show ?thesis
    using valid_hits_ranked [of idx q k hits] scores_sorted [of ranked st] by blast
qed

text \<open>
  Three vectors of which the first and the last have the same score: the second comes
  first, then the first, then the last, then the slots with no result.
\<close>

theorem search_ranked_witness:
  "index_search tied_index [1] 5 =
      Inr [(1, 2), (0, 1), (2, 1), (- 1, no_result_score), (- 1, no_result_score)]
   \<and> sorted_wrt ranks_before [(1, 2), (0, 1), (2, 1)]
   \<and> sorted_wrt (\<lambda>a b. fst (snd a) \<ge> fst (snd b))
        (fst (retrieve_relevant_info small_collab one_doc_state ''unrelated query'' 3))"
proof -
  have s: "index_search tied_index [1] 5 =
      Inr [(1, 2), (0, 1), (2, 1), (- 1, no_result_score), (- 1, no_result_score)]"
    by (simp add: index_search_def tied_index_def enumerate_eq_zip inner_product_def
          upt_rec [of 0] upt_rec [of 1] upt_rec [of 2] numeral_2_eq_2)
  have "valid_hits [(1, 2), (0, 1), (2, 1), (- 1, no_result_score), (- 1, no_result_score)]
          = [(1, 2), (0, 1), (2, 1)]"
    by (simp add: valid_hits_def)
  then show ?thesis
    using s search_ranked [of tied_index "[1]" 5
            "[(1, 2), (0, 1), (2, 1), (- 1, no_result_score), (- 1, no_result_score)]"
            small_collab one_doc_state "''unrelated query''" 3]
    by simp
qed

text \<open>
  C5. The result of retrieval has at most \<open>min k n\<close> entries, with \<open>n\<close> the number of
  vectors in the index. A corpus with no document makes the constructor return a state
  in which the index is empty, and on an empty index retrieval returns the empty
  sequence and leaves the index empty, so that every later call does the same.
  Retrieval returns a sequence in every case: its handler catches every exception.
\<close>

theorem retrieval_bounded:
  "length (fst (retrieve_relevant_info c st query k))
     \<le> min (nat k) (length (index_xb (index st)))
   \<and> (corpus_ids files = [] \<longrightarrow>
        (\<exists>st0. chatbot_init c b files = Inr st0 \<and> problem_ids st0 = []
           \<and> index_xb (index st0) = []
           \<and> fst (retrieve_relevant_info c st0 query k) = []))
   \<and> (index_xb (index st) = [] \<longrightarrow>
        fst (retrieve_relevant_info c st query k) = []
        \<and> index_xb (index (snd (retrieve_relevant_info c st query k))) = [])"
proof -
  have empty: "fst (retrieve_relevant_info c s query k) = []"
    if "index_xb (index s) = []" for s :: "'a chatbot"
    using retrieve_length [of c s query k] that by simp
  have "index (snd (retrieve_relevant_info c st query k)) = index st"
    by (simp add: retrieve_state)
  moreover have "\<exists>st0. chatbot_init c b files = Inr st0 \<and> problem_ids st0 = []
           \<and> index_xb (index st0) = []
           \<and> fst (retrieve_relevant_info c st0 query k) = []"
    if "corpus_ids files = []"
    using chatbot_init_empty [OF that, of c b] empty by auto
  ultimately show ?thesis
    using retrieve_length [of c st query k] empty [of st] by simp
qed

text \<open>One document and \<open>k = 3\<close>; and a directory with no problem file.\<close>

theorem retrieval_bounded_witness:
  "length (fst (retrieve_relevant_info small_collab one_doc_state ''shortest path'' 3)) \<le> min 3 1
   \<and> (\<exists>st0. chatbot_init small_collab False [''notes.txt''] = Inr st0 \<and> problem_ids st0 = []
           \<and> index_xb (index st0) = []
           \<and> fst (retrieve_relevant_info small_collab st0 ''shortest path'' 3) = [])"
proof -
  have "corpus_ids [''notes.txt''] = []"
    by (simp add: corpus_ids_def suffix_to_prefix)
  then show ?thesis
    using retrieval_bounded [of small_collab one_doc_state "''shortest path''" 3
            "[''notes.txt'']" False]
    by (simp add: one_doc_state_def)
qed



text \<open>
  C7. In a state with the single identifier "p1", its document \<open>D\<close> and one vector in
  the index, retrieval with \<open>k = 3\<close> of a query that the embedder maps to a vector of the
  index's dimension returns the one result \<open>("p1", score, D)\<close>, the score being the inner
  product of the two vectors. The search returns three slots, of which two carry the
  sentinel handle \<open>-1\<close>; they are skipped, and resolve to no identifier.
\<close>

theorem single_document_retrieved:
  assumes "problem_ids st = [''p1'']"
    and "problem_data_map st ''p1'' = Some D"
    and "index_xb (index st) = [v]"
    and "get_bert_embedding c query = Inr qv"
    and "length qv = index_d (index st)"
  shows "fst (retrieve_relevant_info c st query 3) = [(''p1'', inner_product qv v, D)]
     \<and> index_search (index st) qv 3 =
         Inr [(0, inner_product qv v), (- 1, no_result_score), (- 1, no_result_score)]"
proof -
  have s: "index_search (index st) qv 3 =
         Inr [(0, inner_product qv v), (- 1, no_result_score), (- 1, no_result_score)]"
    using assms(3,5) by (rule search_single)
  have "fst (retrieve_try c st query 3) = Inr [(''p1'', inner_product qv v, D)]"
    using assms(1,2,4) s by (simp add: retrieve_try_def emit_def Let_def)
  then show ?thesis using s by (simp add: retrieve_result)
qed

text \<open>The state with one document, and a query of length 15.\<close>

theorem single_document_retrieved_witness:
  "fst (retrieve_relevant_info small_collab one_doc_state ''unrelated query'' 3)
     = [(''p1'', 17, PyDict [''title'' \<mapsto> PyStr ''Two Sum''])]
   \<and> index_search (index one_doc_state) [15, 1] 3 =
         Inr [(0, 17), (- 1, no_result_score), (- 1, no_result_score)]"
proof -
  have e: "get_bert_embedding small_collab ''unrelated query'' = Inr [15, 1]"
    by (simp add: small_collab_def)
  have "inner_product [15, 1] [1, 2] = 17"
    by (simp add: inner_product_def)
  then show ?thesis
    using single_document_retrieved [of one_doc_state
            "PyDict [''title'' \<mapsto> PyStr ''Two Sum'']" "[1, 2]" small_collab
            "''unrelated query''" "[15, 1]", OF _ _ _ e]
    by (simp add: one_doc_state_def)
qed

text \<open>
  C8. When the embedder fails on the query, or the search of the index fails, retrieval
  returns the empty sequence and prints one line, "Retrieval error: " followed by the
  text of the exception. Nothing is raised to the caller.
\<close>

theorem query_failure_caught:
  assumes "get_bert_embedding c query = Inl e
           \<or> (\<exists>qv. get_bert_embedding c query = Inr qv
                    \<and> index_search (index st) qv k = Inl e)"
  shows "fst (retrieve_relevant_info c st query k) = []
     \<and> printed (trace (snd (retrieve_relevant_info c st query k)))
         = printed (trace st) @ [''Retrieval error: '' @ error_str e]"
proof -
  have "fst (retrieve_try c st query k) = Inl e"
    using assms by (auto simp: retrieve_try_def emit_def Let_def)
  then show ?thesis
    by (simp add: retrieve_result retrieve_state printed_append)
qed

text \<open>An empty query, on which the embedder fails; and \<open>k = 0\<close>, on which the search fails.\<close>

theorem query_failure_caught_witness:
  "fst (retrieve_relevant_info small_collab one_doc_state [] 3) = []
   \<and> printed (trace (snd (retrieve_relevant_info small_collab one_doc_state [] 3)))
       = [''Retrieval error: empty input'']
   \<and> fst (retrieve_relevant_info small_collab one_doc_state ''query'' 0) = []
   \<and> printed (trace (snd (retrieve_relevant_info small_collab one_doc_state ''query'' 0)))
       = [''Retrieval error: '']"
proof -
  have a: "get_bert_embedding small_collab [] = Inl (OtherException ''empty input'')"
    by (simp add: small_collab_def)
  have b: "get_bert_embedding small_collab ''query'' = Inr [5, 1]
           \<and> index_search (index one_doc_state) [5, 1] 0 = Inl AssertionError"
    by (simp add: small_collab_def index_search_def)
  have t: "trace one_doc_state = []" by (simp add: one_doc_state_def)
  show ?thesis
    using query_failure_caught [of small_collab "[]" "OtherException ''empty input''"
            one_doc_state 3]
          query_failure_caught [of small_collab "''query''" AssertionError one_doc_state 0]
          a b
    by (simp add: t)
qed

text \<open>
  C9. When the lower-cased input contains "hi", "hello" or "hey", or no current problem
  is set once the base class has answered, \<^verbatim>\<open>respond\<close> returns what the base class
  returned, and the state is the one the base class left: the trace is unchanged, so
  no text was embedded, no search was made and no prompt was generated.
\<close>

theorem greeting_bypasses_retrieval:
  assumes "super_respond c (base st) (strip user_input) = (r, b1)"
    and "list_ex (\<lambda>greet. sublist greet (lower user_input)) [''hi'', ''hello'', ''hey'']
         \<or> \<not> current_problem_set c b1"
  shows "respond c st user_input = (r, st\<lparr>base := b1\<rparr>)
     \<and> trace (snd (respond c st user_input)) = trace st"
proof -
  have "is_greeting (strip user_input) \<or> \<not> current_problem_set c b1"
    using assms(2) by (simp only: is_greeting_strip)
  then have "respond c st user_input = (r, st\<lparr>base := b1\<rparr>)"
    using assms(1) by (cases r) (simp_all add: respond_def Let_def)
  then show ?thesis by simp
qed

text \<open>
  "Which one?" contains "hi" and "they differ" contains "hey"; the third input is no
  greeting, and no current problem is set.
\<close>

theorem greeting_bypasses_retrieval_witness:
  "respond demo_collab one_doc_state '' Which one?  ''
     = (Inr ''base: Which one?'', one_doc_state)
   \<and> respond demo_collab one_doc_state ''they differ''
     = (Inr ''base: they differ'', one_doc_state)
   \<and> respond demo_collab (one_doc_state\<lparr>base := False\<rparr>) ''explain the bound''
     = (Inr ''base: explain the bound'', one_doc_state\<lparr>base := False\<rparr>)"
proof -
  have s: "strip '' Which one?  '' = ''Which one?''" "strip ''they differ'' = ''they differ''"
    "strip ''explain the bound'' = ''explain the bound''"
    by (simp_all add: strip_def isspace_def)
  have g: "sublist ''hi'' (lower '' Which one?  '')" "sublist ''hey'' (lower ''they differ'')"
    by (simp_all add: lower_def lower_char_def sublist_code)
  have b: "super_respond demo_collab b t = (Inr (''base: '' @ t), b)"
    "current_problem_set demo_collab b = b" for b t
    by (simp_all add: demo_collab_def)
  have st: "base one_doc_state = True" "one_doc_state\<lparr>base := True\<rparr> = one_doc_state"
    by (simp_all add: one_doc_state_def)
  show ?thesis
    using greeting_bypasses_retrieval [of demo_collab one_doc_state "'' Which one?  ''"
            "Inr ''base: Which one?''" True]
          greeting_bypasses_retrieval [of demo_collab one_doc_state "''they differ''"
            "Inr ''base: they differ''" True]
          greeting_bypasses_retrieval [of demo_collab "one_doc_state\<lparr>base := False\<rparr>"
            "''explain the bound''" "Inr ''base: explain the bound''" False]
    by (simp add: s g b st)
qed

text \<open>
  C10. Retrieval and \<^verbatim>\<open>respond\<close> leave the identifier sequence, the map from identifiers
  to documents and the index as they found them, in every state, and so in the state the
  constructor returns.
\<close>

theorem knowledge_base_read_only:
  "problem_ids (snd (retrieve_relevant_info c st query k)) = problem_ids st
   \<and> problem_data_map (snd (retrieve_relevant_info c st query k)) = problem_data_map st
   \<and> index (snd (retrieve_relevant_info c st query k)) = index st
   \<and> problem_ids (snd (respond c st user_input)) = problem_ids st
   \<and> problem_data_map (snd (respond c st user_input)) = problem_data_map st
   \<and> index (snd (respond c st user_input)) = index st"
  using respond_frame [of c st user_input] by (simp add: retrieve_state)

text \<open>
  An input that is no greeting, with a current problem set: the answer is generated, and
  the knowledge base is what it was.
\<close>

theorem knowledge_base_read_only_witness:
  "fst (respond small_collab one_doc_state ''explain the bound'') = Inr ''generated''
   \<and> problem_ids (snd (respond small_collab one_doc_state ''explain the bound'')) = [''p1'']
   \<and> problem_data_map (snd (respond small_collab one_doc_state ''explain the bound''))
       = [''p1'' \<mapsto> PyDict [''title'' \<mapsto> PyStr ''Two Sum'']]
   \<and> index (snd (respond small_collab one_doc_state ''explain the bound''))
       = \<lparr>index_d = 2, index_xb = [[1, 2]]\<rparr>
   \<and> index (snd (retrieve_relevant_info small_collab one_doc_state ''explain the bound'' 3))
       = \<lparr>index_d = 2, index_xb = [[1, 2]]\<rparr>"
  using knowledge_base_read_only [of small_collab one_doc_state "''explain the bound''" 3
          "''explain the bound''"] demo_augmented
  by (simp add: one_doc_state_def)

end
